theory Spec2Isabelle
  imports Main
begin

section \<open>Go primitives used by main.go\<close>

text \<open>
  Go strings are byte sequences; they are modelled as \<open>string\<close>, a list of 8-bit
  characters. Go's \<open>int\<close> is a 64-bit two's complement integer on the platforms the
  program is built for; values are held as HOL integers and the result of an arithmetic
  operation is wrapped by \<open>go_int\<close>.
\<close>

definition go_int :: "int \<Rightarrow> int" where
  "go_int x = (x + 2 ^ 63) mod 2 ^ 64 - 2 ^ 63"

text \<open>
  \<open>strconv.Itoa\<close>, which is also what \<open>fmt\<close>'s verb \<open>%d\<close> and
  \<open>flag\<close>'s \<open>intValue.String\<close> print: the digits are produced from the least
  significant end into a buffer, a minus sign goes in front of a negative number.
\<close>

definition digit_char :: "nat \<Rightarrow> char" where
  "digit_char d = char_of (of_char CHR ''0'' + d)"

fun formatBits :: "nat \<Rightarrow> string \<Rightarrow> string" where
  "formatBits u buf =
     (if u < 10 then digit_char u # buf
      else formatBits (u div 10) (digit_char (u mod 10) # buf))"

declare formatBits.simps [simp del]

definition Itoa :: "int \<Rightarrow> string" where
  "Itoa i = (if i < 0 then CHR ''-'' # formatBits (nat (- i)) [] else formatBits (nat i) [])"

text \<open>
  \<open>strings.ToLower\<close>. On a string of ASCII bytes Go adds \<open>'a' - 'A'\<close> to every byte
  between \<open>'A'\<close> and \<open>'Z'\<close> and leaves the others alone; this is the model for all
  bytes. (On a string with a byte above 127 Go lower-cases code points through the Unicode
  tables; the result then still has a byte above 127, or an \<open>i\<close> or a \<open>k\<close> in the
  place of U+0130 or U+212A, so it is neither \<open>udp\<close> nor \<open>tcp\<close>, as in the model.)
\<close>

definition lower_byte :: "char \<Rightarrow> char" where
  "lower_byte c =
     (if of_char CHR ''A'' \<le> (of_char c :: nat) \<and> (of_char c :: nat) \<le> of_char CHR ''Z''
      then char_of ((of_char c :: nat) + (of_char CHR ''a'' - of_char CHR ''A''))
      else c)"

definition ToLower :: "string \<Rightarrow> string" where
  "ToLower s = map lower_byte s"

text \<open>\<open>strings.ToUpper\<close>, in the same way.\<close>

definition upper_byte :: "char \<Rightarrow> char" where
  "upper_byte c =
     (if of_char CHR ''a'' \<le> (of_char c :: nat) \<and> (of_char c :: nat) \<le> of_char CHR ''z''
      then char_of ((of_char c :: nat) - (of_char CHR ''a'' - of_char CHR ''A''))
      else c)"

definition ToUpper :: "string \<Rightarrow> string" where
  "ToUpper s = map upper_byte s"

text \<open>
  \<open>strings.ReplaceAll s old new\<close> for a non-empty \<open>old\<close>: the occurrences of \<open>old\<close>
  are found from the left, without overlap, and each is replaced by \<open>new\<close>. (The program
  calls it with \<open>old = " "\<close> only; Go's treatment of an empty \<open>old\<close> is not modelled,
  the input comes back unchanged.)
\<close>

function ReplaceAll :: "string \<Rightarrow> string \<Rightarrow> string \<Rightarrow> string" where
  "ReplaceAll s old new =
     (if s = [] \<or> old = [] then s
      else if take (length old) s = old then new @ ReplaceAll (drop (length old) s) old new
      else hd s # ReplaceAll (tl s) old new)"
  by pat_completeness auto
termination
  by (relation "measure (\<lambda>(s, old, new). length s)") auto

declare ReplaceAll.simps [simp del]

section \<open>The configuration and the client\<close>

record SyslogConfig =
  Address :: string
  Port :: int
  Transport :: string
  Facility :: int
  Severity :: int
  Message :: string
  Hostname :: string
  Program :: string

record SyslogClient =
  config :: SyslogConfig

definition NewSyslogClient :: "SyslogConfig \<Rightarrow> SyslogClient" where
  "NewSyslogClient c = \<lparr>config = c\<rparr>"

text \<open>
  Every \<open>fmt.Errorf\<close> of the program is a constructor; the arguments are the values
  formatted into the message.
\<close>

datatype error =
    Err_message_required
  | Err_facility_range
  | Err_severity_range
  | Err_port_range
  | Err_transport_invalid
  | Err_format_failed string
  | Err_resolve_udp string string
  | Err_connect_udp string
  | Err_send_udp string
  | Err_connect_tcp string
  | Err_send_tcp string
  | Err_unsupported_transport string

fun error_text :: "error \<Rightarrow> string" where
  "error_text Err_message_required = ''message is required''"
| "error_text Err_facility_range = ''facility must be between 0 and 23''"
| "error_text Err_severity_range = ''severity must be between 0 and 7''"
| "error_text Err_port_range = ''port must be between 1 and 65535''"
| "error_text Err_transport_invalid =
     ''transport must be '' @ [CHR 0x27] @ ''udp'' @ [CHR 0x27] @ '' or '' @
     [CHR 0x27] @ ''tcp'' @ [CHR 0x27]"
| "error_text (Err_format_failed e) = ''failed to format message: '' @ e"
| "error_text (Err_resolve_udp a e) = ''failed to resolve UDP address '' @ a @ '': '' @ e"
| "error_text (Err_connect_udp e) = ''failed to connect to UDP server: '' @ e"
| "error_text (Err_send_udp e) = ''failed to send UDP message: '' @ e"
| "error_text (Err_connect_tcp e) = ''failed to connect to TCP server: '' @ e"
| "error_text (Err_send_tcp e) = ''failed to send TCP message: '' @ e"
| "error_text (Err_unsupported_transport t) = ''unsupported transport: '' @ t"

section \<open>validateConfig\<close>

text \<open>
  The method has a pointer receiver and assigns to \<open>s.config.Transport\<close>, so the model
  returns the client next to the error (\<open>None\<close> is Go's \<open>nil\<close>).
\<close>

definition validateConfig :: "SyslogClient \<Rightarrow> error option \<times> SyslogClient" where
  "validateConfig s =
     (if Message (config s) = [] then (Some Err_message_required, s)
      else if Facility (config s) < 0 \<or> Facility (config s) > 23
        then (Some Err_facility_range, s)
      else if Severity (config s) < 0 \<or> Severity (config s) > 7
        then (Some Err_severity_range, s)
      else if Port (config s) < 1 \<or> Port (config s) > 65535
        then (Some Err_port_range, s)
      else
        (let transport = ToLower (Transport (config s)) in
         if transport \<noteq> ''udp'' \<and> transport \<noteq> ''tcp''
         then (Some Err_transport_invalid, s)
         else (None, s\<lparr>config := (config s)\<lparr>Transport := transport\<rparr>\<rparr>)))"

section \<open>The world outside the program\<close>

text \<open>
  What the program reads from its surroundings and what the network answers. A function
  of the network gives the text of the error it fails with, \<open>None\<close> when it succeeds.
\<close>

record world =
  time_Now_Format :: string
  os_Hostname :: "string + string"
  getenv_SYSLOG_DEBUG :: string
  net_ResolveUDPAddr :: "string \<Rightarrow> string option"
  net_DialUDP :: "string \<Rightarrow> string option"
  net_DialTimeout :: "string \<Rightarrow> string option"
  conn_Write :: "string \<Rightarrow> string option"

text \<open>The calls the program makes on the outside, in the order it makes them.\<close>

datatype io_event =
    Ev_ResolveUDPAddr string
  | Ev_DialUDP string
  | Ev_DialTimeout string nat
  | Ev_SetWriteDeadline nat
  | Ev_Write string
  | Ev_Close
  | Ev_Stdout string
  | Ev_Stderr string
  | Ev_log_Fatalf string
  | Ev_printUsage

section \<open>formatMessage\<close>

definition formatMessage :: "world \<Rightarrow> SyslogClient \<Rightarrow> string \<times> error option" where
  "formatMessage w s =
     (let priority = go_int (go_int (Facility (config s) * 8) + Severity (config s));
          timestamp = time_Now_Format w;
          hostname0 =
            (if Hostname (config s) \<noteq> [] then Hostname (config s)
             else (case os_Hostname w of Inr h \<Rightarrow> h | Inl err \<Rightarrow> ''localhost''));
          hostname = ReplaceAll hostname0 '' '' ''-'';
          program0 =
            (if Program (config s) \<noteq> [] then Program (config s) else ''syslog-sender'');
          program = ReplaceAll program0 '' '' ''-'';
          message = ''<'' @ Itoa priority @ ''>'' @ timestamp @ '' '' @ hostname @ '' '' @
                    program @ '': '' @ Message (config s)
      in (message, None))"

section \<open>The transmitters\<close>

definition serverAddr :: "SyslogClient \<Rightarrow> string" where
  "serverAddr s = Address (config s) @ '':'' @ Itoa (Port (config s))"

definition SendUDP :: "world \<Rightarrow> SyslogClient \<Rightarrow> string \<Rightarrow> error option \<times> io_event list" where
  "SendUDP w s message =
     (case net_ResolveUDPAddr w (serverAddr s) of
        Some err \<Rightarrow>
          (Some (Err_resolve_udp (serverAddr s) err), [Ev_ResolveUDPAddr (serverAddr s)])
      | None \<Rightarrow>
          (case net_DialUDP w (serverAddr s) of
             Some err \<Rightarrow>
               (Some (Err_connect_udp err),
                [Ev_ResolveUDPAddr (serverAddr s), Ev_DialUDP (serverAddr s)])
           | None \<Rightarrow>
               (case conn_Write w message of
                  Some err \<Rightarrow>
                    (Some (Err_send_udp err),
                     [Ev_ResolveUDPAddr (serverAddr s), Ev_DialUDP (serverAddr s),
                      Ev_SetWriteDeadline 5, Ev_Write message, Ev_Close])
                | None \<Rightarrow>
                    (None,
                     [Ev_ResolveUDPAddr (serverAddr s), Ev_DialUDP (serverAddr s),
                      Ev_SetWriteDeadline 5, Ev_Write message, Ev_Close]))))"

definition SendTCP :: "world \<Rightarrow> SyslogClient \<Rightarrow> string \<Rightarrow> error option \<times> io_event list" where
  "SendTCP w s message =
     (case net_DialTimeout w (serverAddr s) of
        Some err \<Rightarrow> (Some (Err_connect_tcp err), [Ev_DialTimeout (serverAddr s) 10])
      | None \<Rightarrow>
          (let messageWithNewline = message @ [CHR 0x0A] in
           case conn_Write w messageWithNewline of
             Some err \<Rightarrow>
               (Some (Err_send_tcp err),
                [Ev_DialTimeout (serverAddr s) 10, Ev_SetWriteDeadline 5,
                 Ev_Write messageWithNewline, Ev_Close])
           | None \<Rightarrow>
               (None,
                [Ev_DialTimeout (serverAddr s) 10, Ev_SetWriteDeadline 5,
                 Ev_Write messageWithNewline, Ev_Close])))"

section \<open>Send\<close>

definition debug_output :: "world \<Rightarrow> SyslogClient \<Rightarrow> string \<Rightarrow> io_event list" where
  "debug_output w s message =
     (if getenv_SYSLOG_DEBUG w = ''1''
      then [Ev_Stdout (''Debug: Sending message: '' @ message @ [CHR 0x0A]),
            Ev_Stdout (''Debug: Target: '' @ Address (config s) @ '':'' @
                       Itoa (Port (config s)) @ '' ('' @ Transport (config s) @ '')'' @
                       [CHR 0x0A])]
      else [])"

definition Send :: "world \<Rightarrow> SyslogClient \<Rightarrow> (error option \<times> io_event list) \<times> SyslogClient" where
  "Send w s0 =
     (case validateConfig s0 of
        (Some err, s) \<Rightarrow> ((Some err, []), s)
      | (None, s) \<Rightarrow>
          (case formatMessage w s of
             (message, Some err) \<Rightarrow> ((Some (Err_format_failed (error_text err)), []), s)
           | (message, None) \<Rightarrow>
               (let dbg = debug_output w s message;
                    r = (if Transport (config s) = ''udp'' then SendUDP w s message
                         else if Transport (config s) = ''tcp'' then SendTCP w s message
                         else (Some (Err_unsupported_transport (Transport (config s))), []))
                in ((fst r, dbg @ snd r), s))))"

section \<open>main\<close>

text \<open>
  The command line after \<open>flag.Parse\<close> has read it: the flags the caller supplied, in
  the order given, each with its parsed value. A flag that is not supplied keeps the
  default it was registered with. (A command line that \<open>flag.Parse\<close> rejects ends
  the program inside the library, before any line of \<open>main\<close> that follows; it
  has no list of parsed flags and is outside the model.)
\<close>

datatype flag_arg =
    Flag_address string
  | Flag_port int
  | Flag_transport string
  | Flag_facility int
  | Flag_severity int
  | Flag_message string
  | Flag_hostname string
  | Flag_program string
  | Flag_help bool
  | Flag_version bool

record flag_vars =
  fv_config :: SyslogConfig
  showHelp :: bool
  showVersion :: bool

definition flag_defaults :: flag_vars where
  "flag_defaults =
     \<lparr>fv_config =
        \<lparr>Address = ''localhost'', Port = 514, Transport = ''udp'', Facility = 16,
         Severity = 6, Message = [], Hostname = [], Program = []\<rparr>,
      showHelp = False, showVersion = False\<rparr>"

fun flag_Set :: "flag_vars \<Rightarrow> flag_arg \<Rightarrow> flag_vars" where
  "flag_Set v (Flag_address x) = v\<lparr>fv_config := (fv_config v)\<lparr>Address := x\<rparr>\<rparr>"
| "flag_Set v (Flag_port x) = v\<lparr>fv_config := (fv_config v)\<lparr>Port := x\<rparr>\<rparr>"
| "flag_Set v (Flag_transport x) = v\<lparr>fv_config := (fv_config v)\<lparr>Transport := x\<rparr>\<rparr>"
| "flag_Set v (Flag_facility x) = v\<lparr>fv_config := (fv_config v)\<lparr>Facility := x\<rparr>\<rparr>"
| "flag_Set v (Flag_severity x) = v\<lparr>fv_config := (fv_config v)\<lparr>Severity := x\<rparr>\<rparr>"
| "flag_Set v (Flag_message x) = v\<lparr>fv_config := (fv_config v)\<lparr>Message := x\<rparr>\<rparr>"
| "flag_Set v (Flag_hostname x) = v\<lparr>fv_config := (fv_config v)\<lparr>Hostname := x\<rparr>\<rparr>"
| "flag_Set v (Flag_program x) = v\<lparr>fv_config := (fv_config v)\<lparr>Program := x\<rparr>\<rparr>"
| "flag_Set v (Flag_help x) = v\<lparr>showHelp := x\<rparr>"
| "flag_Set v (Flag_version x) = v\<lparr>showVersion := x\<rparr>"

definition flag_Parse :: "flag_arg list \<Rightarrow> flag_vars" where
  "flag_Parse args = foldl flag_Set flag_defaults args"

text \<open>
  Lines 250 to 253 of main.go. \<open>flag.Lookup("port").Value.String()\<close> prints the current
  value of the variable the flag is bound to, which is \<open>config.Port\<close>.
\<close>

definition adjust_port :: "SyslogConfig \<Rightarrow> SyslogConfig" where
  "adjust_port c =
     (if Itoa (Port c) = ''514'' \<and> ToLower (Transport c) = ''tcp''
      then c\<lparr>Port := 601\<rparr> else c)"

text \<open>
  \<open>main\<close> up to the creation of the client: the exit code it stops with, or the
  configuration it hands to \<open>NewSyslogClient\<close>.
\<close>

definition main_config :: "flag_arg list \<Rightarrow> nat + SyslogConfig" where
  "main_config args =
     (let v = flag_Parse args in
      if showVersion v then Inl 0
      else if showHelp v then Inl 0
      else if Message (fv_config v) = [] then Inl 1
      else Inr (adjust_port (fv_config v)))"

text \<open>The whole of \<open>main\<close>: the exit code and the calls made on the outside.\<close>

definition main :: "world \<Rightarrow> flag_arg list \<Rightarrow> nat \<times> io_event list" where
  "main w args =
     (let v = flag_Parse args in
      if showVersion v then
        (0, [Ev_Stdout (''syslog-sender version 0.2.0'' @ [CHR 0x0A]),
             Ev_Stdout (''Project: https://github.com/wellsgz/syslog-sender'' @ [CHR 0x0A])])
      else if showHelp v then (0, [Ev_printUsage])
      else if Message (fv_config v) = [] then
        (1, [Ev_Stderr (''Error: message is required'' @ [CHR 0x0A, CHR 0x0A]), Ev_printUsage])
      else
        (let c = adjust_port (fv_config v) in
         case fst (Send w (NewSyslogClient c)) of
           (Some err, evs) \<Rightarrow>
             (1, evs @ [Ev_log_Fatalf (''Failed to send syslog message: '' @ error_text err)])
         | (None, evs) \<Rightarrow>
             (0, evs @
                 (if getenv_SYSLOG_DEBUG w = ''1''
                  then [Ev_Stdout (''Message sent successfully to '' @ Address c @ '':'' @
                                   Itoa (Port c) @ '' via '' @ ToUpper (Transport c) @
                                   [CHR 0x0A])]
                  else []))))"

section \<open>Notions of the specification\<close>

text \<open>
  The definitions of this section follow the words of the specification, not the code;
  the theorems below compare the code with them.
\<close>

text \<open>
  A string is the decimal numeral of \<open>n\<close> with no leading zeros: it is not empty, all
  its characters are decimal digits, read in base ten they give \<open>n\<close>, and the first
  digit is a zero only when the numeral is \<open>0\<close> itself.
\<close>

definition is_digit :: "char \<Rightarrow> bool" where
  "is_digit c =
     (of_char CHR ''0'' \<le> (of_char c :: nat) \<and> (of_char c :: nat) \<le> of_char CHR ''9'')"

definition decimal_value :: "string \<Rightarrow> nat" where
  "decimal_value ds = foldl (\<lambda>v c. 10 * v + ((of_char c :: nat) - of_char CHR ''0'')) 0 ds"

definition decimal_numeral :: "nat \<Rightarrow> string \<Rightarrow> bool" where
  "decimal_numeral n ds =
     (ds \<noteq> [] \<and> list_all is_digit ds \<and> decimal_value ds = n \<and>
      (hd ds = CHR ''0'') = (ds = ''0''))"

text \<open>The spellings a case-insensitive comparison takes for \<open>udp\<close> and for \<open>tcp\<close>.\<close>

definition udp_spellings :: "string set" where
  "udp_spellings = {''udp'', ''udP'', ''uDp'', ''uDP'', ''Udp'', ''UdP'', ''UDp'', ''UDP''}"

definition tcp_spellings :: "string set" where
  "tcp_spellings = {''tcp'', ''tcP'', ''tCp'', ''tCP'', ''Tcp'', ''TcP'', ''TCp'', ''TCP''}"

text \<open>
  The validator's checks in the order of the specification, each with the failure it
  reports, and the failure of the first check that does not hold.
\<close>

definition validation_checks :: "((SyslogConfig \<Rightarrow> bool) \<times> error) list" where
  "validation_checks =
     [(\<lambda>c. Message c \<noteq> [], Err_message_required),
      (\<lambda>c. 0 \<le> Facility c \<and> Facility c \<le> 23, Err_facility_range),
      (\<lambda>c. 0 \<le> Severity c \<and> Severity c \<le> 7, Err_severity_range),
      (\<lambda>c. 1 \<le> Port c \<and> Port c \<le> 65535, Err_port_range),
      (\<lambda>c. Transport c \<in> udp_spellings \<union> tcp_spellings, Err_transport_invalid)]"

fun first_failure :: "(('a \<Rightarrow> bool) \<times> error) list \<Rightarrow> 'a \<Rightarrow> error option" where
  "first_failure [] c = None"
| "first_failure ((holds, e) # rest) c = (if holds c then first_failure rest c else Some e)"

text \<open>Spaces replaced with hyphens, every other character kept.\<close>

definition hyphenate :: "string \<Rightarrow> string" where
  "hyphenate s = map (\<lambda>c. if c = CHR '' '' then CHR ''-'' else c) s"

text \<open>
  The effective reporting host and program: the override if present, else the system
  hostname, else \<open>localhost\<close> if the lookup fails; the override if present, else the
  fixed default.
\<close>

definition effective_host :: "world \<Rightarrow> SyslogConfig \<Rightarrow> string" where
  "effective_host w c =
     (if Hostname c \<noteq> [] then Hostname c
      else case os_Hostname w of Inr h \<Rightarrow> h | Inl e \<Rightarrow> ''localhost'')"

definition effective_program :: "SyslogConfig \<Rightarrow> string" where
  "effective_program c = (if Program c \<noteq> [] then Program c else ''syslog-sender'')"

text \<open>The layout of the rendered line.\<close>

definition rendered_line :: "string \<Rightarrow> string \<Rightarrow> string \<Rightarrow> string \<Rightarrow> string \<Rightarrow> string" where
  "rendered_line tag timestamp host program body =
     ''<'' @ tag @ ''>'' @ timestamp @ '' '' @ host @ '' '' @ program @ '': '' @ body"

text \<open>The payloads of the writes among the calls made on the outside.\<close>

fun writes :: "io_event list \<Rightarrow> string list" where
  "writes [] = []"
| "writes (Ev_Write p # evs) = p # writes evs"
| "writes (_ # evs) = writes evs"

text \<open>The caller supplied the port flag.\<close>

fun is_port_flag :: "flag_arg \<Rightarrow> bool" where
  "is_port_flag (Flag_port _) = True"
| "is_port_flag _ = False"

definition port_supplied :: "flag_arg list \<Rightarrow> bool" where
  "port_supplied args = list_ex is_port_flag args"

section \<open>Configurations of main\_test.go and a world to run them in\<close>

definition test_valid_config :: SyslogConfig where
  "test_valid_config =
     \<lparr>Address = ''localhost'', Port = 514, Transport = ''udp'', Facility = 16, Severity = 6,
      Message = ''test message'', Hostname = ''test-host'', Program = ''test-program''\<rparr>"

definition test_spaces_config :: SyslogConfig where
  "test_spaces_config =
     \<lparr>Address = ''localhost'', Port = 514, Transport = ''udp'', Facility = 16, Severity = 6,
      Message = ''test message'', Hostname = ''test host name'', Program = ''test program''\<rparr>"

definition test_empty_message_config :: SyslogConfig where
  "test_empty_message_config =
     \<lparr>Address = ''localhost'', Port = 514, Transport = ''udp'', Facility = 16, Severity = 6,
      Message = [], Hostname = [], Program = []\<rparr>"

definition quiet_world :: world where
  "quiet_world =
     \<lparr>time_Now_Format = ''Nov  3 13:46:05'', os_Hostname = Inr ''build host'',
      getenv_SYSLOG_DEBUG = [], net_ResolveUDPAddr = (\<lambda>a. None), net_DialUDP = (\<lambda>a. None),
      net_DialTimeout = (\<lambda>a. None), conn_Write = (\<lambda>p. None)\<rparr>"

definition refusing_world :: world where
  "refusing_world =
     quiet_world\<lparr>net_ResolveUDPAddr := (\<lambda>a. Some ''no such host''),
                 net_DialTimeout := (\<lambda>a. Some ''connection refused'')\<rparr>"

section \<open>Facts about the primitives\<close>


lemma go_int_id: "- (2 ^ 63) \<le> x \<Longrightarrow> x < 2 ^ 63 \<Longrightarrow> go_int x = x"
  by (simp add: go_int_def)

lemma of_char_digit_char: "d < 10 \<Longrightarrow> (of_char (digit_char d) :: nat) = 48 + d"
  by (simp add: digit_char_def)

lemma is_digit_digit_char: "d < 10 \<Longrightarrow> is_digit (digit_char d)"
  by (simp add: is_digit_def of_char_digit_char)

lemma formatBits_append: "formatBits u buf = formatBits u [] @ buf"
proof (induction u arbitrary: buf rule: less_induct)
  case (less u)
  show ?case
  proof (cases "u < 10")
    case True
    then show ?thesis by (simp add: formatBits.simps[of u])
  next
    case False
    then have lt: "u div 10 < u" by simp
    have "formatBits u buf = formatBits (u div 10) (digit_char (u mod 10) # buf)"
      using False by (simp add: formatBits.simps[of u buf])
    also have "\<dots> = formatBits (u div 10) [] @ digit_char (u mod 10) # buf"
      by (rule less.IH[OF lt])
    also have "\<dots> = (formatBits (u div 10) [] @ [digit_char (u mod 10)]) @ buf"
      by simp
    also have "formatBits (u div 10) [] @ [digit_char (u mod 10)] = formatBits (u div 10) [digit_char (u mod 10)]"
      by (rule less.IH[OF lt, symmetric])
    also have "\<dots> = formatBits u []"
      using False by (simp add: formatBits.simps[of u "[]"])
    finally show ?thesis .
  qed
qed

lemma formatBits_small: "u < 10 \<Longrightarrow> formatBits u [] = [digit_char u]"
  by (simp add: formatBits.simps[of u])

lemma formatBits_step:
  "\<not> u < 10 \<Longrightarrow> formatBits u [] = formatBits (u div 10) [] @ [digit_char (u mod 10)]"
  using formatBits_append[of "u div 10" "[digit_char (u mod 10)]"]
  by (simp add: formatBits.simps[of u "[]"])

lemma formatBits_digits: "list_all is_digit (formatBits u [])"
proof (induction u rule: less_induct)
  case (less u)
  show ?case
  proof (cases "u < 10")
    case True
    then show ?thesis by (simp add: formatBits_small is_digit_digit_char)
  next
    case False
    then have "u div 10 < u" by simp
    from less.IH[OF this] False show ?thesis
      by (simp add: formatBits_step is_digit_digit_char)
  qed
qed

lemma decimal_value_snoc:
  "decimal_value (ds @ [c]) = 10 * decimal_value ds + ((of_char c :: nat) - 48)"
  by (simp add: decimal_value_def)

lemma decimal_value_formatBits: "decimal_value (formatBits u []) = u"
proof (induction u rule: less_induct)
  case (less u)
  show ?case
  proof (cases "u < 10")
    case True
    then show ?thesis
      by (simp add: formatBits_small decimal_value_def of_char_digit_char)
  next
    case False
    then have "u div 10 < u" by simp
    from less.IH[OF this] False show ?thesis
      by (simp add: formatBits_step decimal_value_snoc of_char_digit_char)
  qed
qed

lemma formatBits_nonempty: "formatBits u [] \<noteq> []"
  by (cases "u < 10") (simp_all add: formatBits_small formatBits_step)

lemma formatBits_no_leading_zero: "0 < u \<Longrightarrow> hd (formatBits u []) \<noteq> CHR ''0''"
proof (induction u rule: less_induct)
  case (less u)
  show ?case
  proof (cases "u < 10")
    case True
    with less.prems have "(of_char (digit_char u) :: nat) \<noteq> of_char CHR ''0''"
      by (simp add: of_char_digit_char)
    then have "digit_char u \<noteq> CHR ''0''" by auto
    with True show ?thesis by (simp add: formatBits_small)
  next
    case False
    then have lt: "u div 10 < u" and pos: "0 < u div 10" by simp_all
    from less.IH[OF lt pos] False show ?thesis
      by (simp add: formatBits_step formatBits_nonempty)
  qed
qed

lemma formatBits_zero: "formatBits 0 [] = ''0''"
  by code_simp

lemma Itoa_nonneg: "0 \<le> i \<Longrightarrow> Itoa i = formatBits (nat i) []"
  by (simp add: Itoa_def)

lemma Itoa_134: "Itoa 134 = ''134''"
  by code_simp

lemma Itoa_inj_514: "Itoa i = ''514'' \<longleftrightarrow> i = 514"
proof
  assume h: "Itoa i = ''514''"
  have nn: "0 \<le> i"
  proof (rule ccontr)
    assume "\<not> 0 \<le> i"
    then have "hd (Itoa i) = CHR ''-''" by (simp add: Itoa_def)
    with h show False by simp
  qed
  then have "decimal_value (Itoa i) = nat i"
    by (simp add: Itoa_nonneg decimal_value_formatBits)
  with h have "nat i = 514" by (simp add: decimal_value_def)
  with nn show "i = 514" by simp
next
  have "Itoa 514 = ''514''" by code_simp
  moreover assume "i = 514"
  ultimately show "Itoa i = ''514''" by simp
qed

lemma of_char_lower_byte:
  "(of_char (lower_byte c) :: nat) =
     (if 65 \<le> (of_char c :: nat) \<and> (of_char c :: nat) \<le> 90 then of_char c + 32 else of_char c)"
  by (simp add: lower_byte_def)

lemma lower_byte_eq_iff:
  assumes "97 \<le> (of_char x :: nat)" "(of_char x :: nat) \<le> 122"
  shows "lower_byte c = x \<longleftrightarrow> c = x \<or> c = char_of ((of_char x :: nat) - 32)"
proof -
  have cb: "(of_char c :: nat) < 256" by simp
  have "lower_byte c = x \<longleftrightarrow> (of_char (lower_byte c) :: nat) = of_char x"
    by (simp only: of_char_eq_iff)
  also have "\<dots> \<longleftrightarrow> (of_char c :: nat) = of_char x \<or> (of_char c :: nat) = of_char x - 32"
    using assms by (auto simp: of_char_lower_byte)
  also have "(of_char c :: nat) = of_char x - 32 \<longleftrightarrow> c = char_of ((of_char x :: nat) - 32)"
  proof
    assume "(of_char c :: nat) = of_char x - 32"
    then have "char_of (of_char c :: nat) = char_of ((of_char x :: nat) - 32)" by simp
    then show "c = char_of ((of_char x :: nat) - 32)" by simp
  next
    assume "c = char_of ((of_char x :: nat) - 32)"
    then show "(of_char c :: nat) = of_char x - 32"
      using assms by simp
  qed
  finally show ?thesis by simp
qed

lemma lower_u: "lower_byte c = CHR ''u'' \<longleftrightarrow> c = CHR ''u'' \<or> c = CHR ''U''"
proof -
  have "char_of (85::nat) = CHR ''U''" by code_simp
  with lower_byte_eq_iff[of "CHR ''u''" c] show ?thesis by simp
qed
lemma lower_d: "lower_byte c = CHR ''d'' \<longleftrightarrow> c = CHR ''d'' \<or> c = CHR ''D''"
proof -
  have "char_of (68::nat) = CHR ''D''" by code_simp
  with lower_byte_eq_iff[of "CHR ''d''" c] show ?thesis by simp
qed
lemma lower_p: "lower_byte c = CHR ''p'' \<longleftrightarrow> c = CHR ''p'' \<or> c = CHR ''P''"
proof -
  have "char_of (80::nat) = CHR ''P''" by code_simp
  with lower_byte_eq_iff[of "CHR ''p''" c] show ?thesis by simp
qed
lemma lower_t: "lower_byte c = CHR ''t'' \<longleftrightarrow> c = CHR ''t'' \<or> c = CHR ''T''"
proof -
  have "char_of (84::nat) = CHR ''T''" by code_simp
  with lower_byte_eq_iff[of "CHR ''t''" c] show ?thesis by simp
qed
lemma lower_c: "lower_byte c = CHR ''c'' \<longleftrightarrow> c = CHR ''c'' \<or> c = CHR ''C''"
proof -
  have "char_of (67::nat) = CHR ''C''" by code_simp
  with lower_byte_eq_iff[of "CHR ''c''" c] show ?thesis by simp
qed

lemma map3: "map f s = [a, b, c] \<longleftrightarrow> (\<exists>x y z. s = [x, y, z] \<and> f x = a \<and> f y = b \<and> f z = c)"
  by (auto simp: map_eq_Cons_conv)

lemma ToLower_udp: "ToLower t = ''udp'' \<longleftrightarrow> t \<in> udp_spellings"
  unfolding ToLower_def udp_spellings_def map3 lower_u lower_d lower_p by auto

lemma ToLower_tcp: "ToLower t = ''tcp'' \<longleftrightarrow> t \<in> tcp_spellings"
  unfolding ToLower_def tcp_spellings_def map3 lower_t lower_c lower_p by auto

lemma ReplaceAll_space: "ReplaceAll s '' '' ''-'' = hyphenate s"
proof (induction s)
  case Nil
  show ?case by (simp add: ReplaceAll.simps[of "[]"] hyphenate_def)
next
  case (Cons c s)
  then show ?case
    by (simp add: ReplaceAll.simps[of "c # s"] hyphenate_def)
qed

section \<open>Facts about the program\<close>

lemma decimal_numeral_Itoa: "0 \<le> i \<Longrightarrow> decimal_numeral (nat i) (Itoa i)"
proof (cases "i = 0")
  case True
  have "Itoa 0 = ''0''" by code_simp
  moreover have "decimal_numeral 0 ''0''" by code_simp
  ultimately show ?thesis using True by simp
next
  case False
  assume "0 \<le> i"
  with False have pos: "0 < nat i" by simp
  have "hd (formatBits (nat i) []) \<noteq> CHR ''0''"
    by (rule formatBits_no_leading_zero[OF pos])
  moreover from this have "formatBits (nat i) [] \<noteq> ''0''" by auto
  ultimately show ?thesis
    using \<open>0 \<le> i\<close>
    by (simp add: decimal_numeral_def Itoa_nonneg formatBits_nonempty formatBits_digits
        decimal_value_formatBits)
qed

lemma formatMessage_line:
  "fst (formatMessage w s) =
     rendered_line (Itoa (go_int (go_int (Facility (config s) * 8) + Severity (config s))))
       (time_Now_Format w) (hyphenate (effective_host w (config s)))
       (hyphenate (effective_program (config s))) (Message (config s))"
  by (simp add: formatMessage_def rendered_line_def effective_host_def effective_program_def
      ReplaceAll_space Let_def)

lemma priority_in_range:
  assumes "0 \<le> f" "f \<le> 23" "0 \<le> v" "v \<le> 7"
  shows "go_int (go_int (f * 8) + v) = f * 8 + v"
proof -
  have "go_int (f * 8) = f * 8" using assms by (intro go_int_id) simp_all
  moreover have "go_int (f * 8 + v) = f * 8 + v" using assms by (intro go_int_id) simp_all
  ultimately show ?thesis by simp
qed

lemma transport_recognized:
  "(ToLower t \<noteq> ''udp'' \<and> ToLower t \<noteq> ''tcp'') \<longleftrightarrow> t \<notin> udp_spellings \<union> tcp_spellings"
  by (simp add: ToLower_udp ToLower_tcp)

lemma validateConfig_transport:
  "fst (validateConfig s) = None \<Longrightarrow>
     Transport (config (snd (validateConfig s))) = ''udp'' \<or>
     Transport (config (snd (validateConfig s))) = ''tcp''"
  by (auto simp: validateConfig_def Let_def split: if_splits)

lemma validateConfig_error:
  "validateConfig s = (Some e, s') \<Longrightarrow>
     s' = s \<and> e \<in> {Err_message_required, Err_facility_range, Err_severity_range,
        Err_port_range, Err_transport_invalid}"
  by (auto simp: validateConfig_def Let_def split: if_splits)

lemma hyphenate_nth:
  "i < length h \<Longrightarrow> hyphenate h ! i = (if h ! i = CHR '' '' then CHR ''-'' else h ! i)"
  by (simp add: hyphenate_def)

lemma length_hyphenate: "length (hyphenate h) = length h"
  by (simp add: hyphenate_def)

lemma hyphenate_no_space: "CHR '' '' \<notin> set (hyphenate h)"
  by (auto simp: hyphenate_def)

lemma hd_hyphenate: "h \<noteq> [] \<Longrightarrow> hd (hyphenate h) = (if hd h = CHR '' '' then CHR ''-'' else hd h)"
  by (cases h) (simp_all add: hyphenate_def)

lemma last_hyphenate:
  "h \<noteq> [] \<Longrightarrow> last (hyphenate h) = (if last h = CHR '' '' then CHR ''-'' else last h)"
  by (simp add: hyphenate_def last_map)

lemma flag_Set_keeps_port:
  "\<not> is_port_flag a \<Longrightarrow> Port (fv_config (flag_Set v a)) = Port (fv_config v)"
  by (cases a) simp_all

lemma foldl_flag_Set_keeps_port:
  "\<not> list_ex is_port_flag args \<Longrightarrow>
     Port (fv_config (foldl flag_Set v args)) = Port (fv_config v)"
  by (induction args arbitrary: v) (simp_all add: flag_Set_keeps_port)

lemma adjust_port_eq:
  "adjust_port c =
     (if Port c = 514 \<and> Transport c \<in> tcp_spellings then c\<lparr>Port := 601\<rparr> else c)"
  by (simp add: adjust_port_def Itoa_inj_514 ToLower_tcp)

lemma default_port_resolution:
  assumes "\<not> port_supplied args" "main_config args = Inr c"
  shows "Port c = (if Transport c \<in> tcp_spellings then 601 else 514)"
proof -
  have "Port (fv_config (flag_Parse args)) = 514"
    using assms(1) by (simp add: flag_Parse_def port_supplied_def foldl_flag_Set_keeps_port
        flag_defaults_def)
  with assms(2) show ?thesis
    by (auto simp: main_config_def Let_def adjust_port_eq split: if_splits)
qed

lemma explicit_port_resolution:
  assumes "args = pre @ Flag_port p # post" "\<not> port_supplied post" "main_config args = Inr c"
  shows "Port c = (if p = 514 \<and> Transport c \<in> tcp_spellings then 601 else p)"
proof -
  have "Port (fv_config (flag_Parse args)) = p"
    using assms(1,2) by (simp add: flag_Parse_def port_supplied_def foldl_flag_Set_keeps_port)
  with assms(3) show ?thesis
    by (auto simp: main_config_def Let_def adjust_port_eq split: if_splits)
qed

section \<open>The claims\<close>

text \<open>
  Claim C1 (default-port adjustment only when the port flag was not supplied). The two
  lemmas above give what \<open>main\<close> does: with no port flag the port is 601 for
  \<open>tcp\<close> and 514 otherwise, and a supplied port is kept unless it is 514 and the
  transport is \<open>tcp\<close>. The comment of main.go says the adjustment is made
  when the port was not explicitly set, but the condition compares the value of the flag
  with \<open>514\<close>: for the command line \<open>-transport tcp -port 514 -message x\<close>
  the port flag is supplied, and the configuration handed to the client has port 601,
  which is the address the program dials.
\<close>

theorem explicit_port_514_with_tcp_is_replaced:
  "port_supplied [Flag_transport ''tcp'', Flag_port 514, Flag_message ''x''] \<and>
   main_config [Flag_transport ''tcp'', Flag_port 514, Flag_message ''x''] =
     Inr \<lparr>Address = ''localhost'', Port = 601, Transport = ''tcp'', Facility = 16,
          Severity = 6, Message = ''x'', Hostname = [], Program = []\<rparr> \<and>
   main quiet_world [Flag_transport ''tcp'', Flag_port 514, Flag_message ''x''] =
     (0, [Ev_DialTimeout ''localhost:601'' 10, Ev_SetWriteDeadline 5,
          Ev_Write (''<134>Nov  3 13:46:05 build-host syslog-sender: x'' @ [CHR 0x0A]),
          Ev_Close])"
  by code_simp

text \<open>
  Claim C2. For a facility in 0..23 and a severity in 0..7 the line rendered by
  \<open>formatMessage\<close> is \<open><\<close>, the decimal numeral without leading zeros of
  facility * 8 + severity, \<open>>\<close>, then at once the timestamp, then the rest; and
  facility * 8 + severity lies in 0..191.
\<close>

theorem priority_tag_leads_line:
  assumes "0 \<le> Facility (config s)" "Facility (config s) \<le> 23"
    and "0 \<le> Severity (config s)" "Severity (config s) \<le> 7"
  shows "\<exists>tag rest.
           decimal_numeral (nat (Facility (config s) * 8 + Severity (config s))) tag \<and>
           fst (formatMessage w s) = ''<'' @ tag @ ''>'' @ time_Now_Format w @ rest \<and>
           0 \<le> Facility (config s) * 8 + Severity (config s) \<and>
           Facility (config s) * 8 + Severity (config s) \<le> 191"
proof -
  let ?p = "Facility (config s) * 8 + Severity (config s)"
  have range: "0 \<le> ?p" "?p \<le> 191" using assms by simp_all
  have num: "decimal_numeral (nat ?p) (Itoa ?p)"
    by (rule decimal_numeral_Itoa[OF range(1)])
  have "fst (formatMessage w s) =
          ''<'' @ Itoa ?p @ ''>'' @ time_Now_Format w @
          ('' '' @ hyphenate (effective_host w (config s)) @ '' '' @
           hyphenate (effective_program (config s)) @ '': '' @ Message (config s))"
    by (simp add: formatMessage_line rendered_line_def priority_in_range[OF assms])
  with num range show ?thesis by blast
qed

theorem priority_tag_leads_line_witness:
  "\<exists>tag rest.
     decimal_numeral 134 tag \<and>
     fst (formatMessage quiet_world (NewSyslogClient test_valid_config)) =
       ''<'' @ tag @ ''>'' @ ''Nov  3 13:46:05'' @ rest"
  using priority_tag_leads_line[of "NewSyslogClient test_valid_config" quiet_world]
  by (simp add: NewSyslogClient_def test_valid_config_def quiet_world_def)

text \<open>
  Claim C3. \<open>validateConfig\<close> returns an error exactly when the body is empty, or
  the facility is outside 0..23, or the severity is outside 0..7, or the port is outside
  1..65535, or the transport is, whatever the case of its letters, neither \<open>udp\<close>
  nor \<open>tcp\<close>; on every other configuration it returns no error.
\<close>

theorem validateConfig_fails_iff:
  "fst (validateConfig s) \<noteq> None \<longleftrightarrow>
     (Message (config s) = [] \<or>
      Facility (config s) < 0 \<or> 23 < Facility (config s) \<or>
      Severity (config s) < 0 \<or> 7 < Severity (config s) \<or>
      Port (config s) < 1 \<or> 65535 < Port (config s) \<or>
      Transport (config s) \<notin> udp_spellings \<union> tcp_spellings)"
  using transport_recognized[of "Transport (config s)"]
  by (auto simp: validateConfig_def Let_def)

theorem validateConfig_fails_iff_witness:
  "fst (validateConfig (NewSyslogClient test_valid_config)) = None \<and>
   fst (validateConfig (NewSyslogClient (test_valid_config\<lparr>Transport := ''bad''\<rparr>))) \<noteq> None"
  using validateConfig_fails_iff[of "NewSyslogClient test_valid_config"]
    validateConfig_fails_iff[of "NewSyslogClient (test_valid_config\<lparr>Transport := ''bad''\<rparr>)"]
  by (simp add: NewSyslogClient_def test_valid_config_def udp_spellings_def tcp_spellings_def)

text \<open>
  Claim C4. \<open>validateConfig\<close> reports the failure of the first check that fails,
  in the order body, facility, severity, port, transport; a configuration with an empty
  body and a facility out of range is reported as the missing message.
\<close>

theorem validateConfig_reports_first_failure:
  "fst (validateConfig s) = first_failure validation_checks (config s) \<and>
   (Message (config s) = [] \<and> (Facility (config s) < 0 \<or> 23 < Facility (config s)) \<longrightarrow>
      fst (validateConfig s) = Some Err_message_required)"
  using transport_recognized[of "Transport (config s)"]
  by (auto simp: validateConfig_def validation_checks_def Let_def)

theorem validateConfig_reports_first_failure_witness:
  "fst (validateConfig (NewSyslogClient (test_empty_message_config\<lparr>Facility := 25\<rparr>))) =
     Some Err_message_required"
proof -
  let ?s = "NewSyslogClient (test_empty_message_config\<lparr>Facility := 25\<rparr>)"
  have "Message (config ?s) = [] \<and> (Facility (config ?s) < 0 \<or> 23 < Facility (config ?s))"
    by (simp add: NewSyslogClient_def test_empty_message_config_def)
  with validateConfig_reports_first_failure[of ?s] show ?thesis by blast
qed

text \<open>
  Claim C5, as stated, fails: when the address does not resolve or the
  connection is refused, the transmitters return before the write, and nothing is
  written in that invocation.
\<close>

theorem write_once_per_invocation_counterexample:
  "writes (snd (SendUDP refusing_world (NewSyslogClient test_valid_config) ''<134>line'')) = [] \<and>
   writes (snd (SendTCP refusing_world (NewSyslogClient test_valid_config) ''<134>line'')) = []"
  by code_simp

text \<open>
  Claim C5, amended. \<open>SendUDP\<close> writes the line as it is, once, when the
  address resolves and the socket opens, and nothing otherwise; \<open>SendTCP\<close> writes
  the line followed by one newline, once, when the connection is made, and nothing
  otherwise; neither writes more than once.
\<close>

theorem transmitters_write_once_when_connected:
  "writes (snd (SendUDP w s L)) =
     (if net_ResolveUDPAddr w (serverAddr s) = None \<and> net_DialUDP w (serverAddr s) = None
      then [L] else []) \<and>
   writes (snd (SendTCP w s L)) =
     (if net_DialTimeout w (serverAddr s) = None then [L @ [CHR 0x0A]] else []) \<and>
   length (writes (snd (SendUDP w s L))) \<le> 1 \<and>
   length (writes (snd (SendTCP w s L))) \<le> 1"
  by (simp add: SendUDP_def SendTCP_def Let_def split: option.splits)

theorem transmitters_write_once_when_connected_witness:
  "writes (snd (SendUDP quiet_world (NewSyslogClient test_valid_config) ''<134>line'')) =
     [''<134>line''] \<and>
   writes (snd (SendTCP quiet_world (NewSyslogClient test_valid_config) ''<134>line'')) =
     [''<134>line'' @ [CHR 0x0A]]"
  using transmitters_write_once_when_connected
    [of quiet_world "NewSyslogClient test_valid_config" "''<134>line''"]
  by (simp add: quiet_world_def)

text \<open>
  Claim C6. In the rendered line the host and program fields have the length of the
  effective host and program identifiers and a hyphen wherever these have an interior
  space, and the line ends with the body text as it is; for the configuration of the test
  with facility 16, severity 6, hostname \<open>test host name\<close>, program
  \<open>test program\<close> and message \<open>test message\<close> the line contains
  \<open><134>\<close>, \<open>test-host-name\<close>, \<open>test-program:\<close> and
  \<open>test message\<close> in that order.
\<close>

theorem interior_spaces_hyphenated_body_verbatim:
  "(\<exists>tag hostf progf.
      fst (formatMessage w s) =
        ''<'' @ tag @ ''>'' @ time_Now_Format w @ '' '' @ hostf @ '' '' @ progf @ '': '' @
        Message (config s) \<and>
      length hostf = length (effective_host w (config s)) \<and>
      length progf = length (effective_program (config s)) \<and>
      (\<forall>i. 0 < i \<and> Suc i < length (effective_host w (config s)) \<and>
           effective_host w (config s) ! i = CHR '' '' \<longrightarrow> hostf ! i = CHR ''-'') \<and>
      (\<forall>i. 0 < i \<and> Suc i < length (effective_program (config s)) \<and>
           effective_program (config s) ! i = CHR '' '' \<longrightarrow> progf ! i = CHR ''-'')) \<and>
   (\<exists>a b c d e.
      fst (formatMessage w (NewSyslogClient test_spaces_config)) =
        a @ ''<134>'' @ b @ ''test-host-name'' @ c @ ''test-program:'' @ d @ ''test message'' @ e)"
proof
  let ?h = "effective_host w (config s)" and ?p = "effective_program (config s)"
  have "fst (formatMessage w s) =
        ''<'' @ Itoa (go_int (go_int (Facility (config s) * 8) + Severity (config s))) @ ''>'' @
        time_Now_Format w @ '' '' @ hyphenate ?h @ '' '' @ hyphenate ?p @ '': '' @
        Message (config s)"
    by (simp add: formatMessage_line rendered_line_def)
  moreover have "\<forall>i. 0 < i \<and> Suc i < length ?h \<and> ?h ! i = CHR '' '' \<longrightarrow> hyphenate ?h ! i = CHR ''-''"
    by (simp add: hyphenate_nth)
  moreover have "\<forall>i. 0 < i \<and> Suc i < length ?p \<and> ?p ! i = CHR '' '' \<longrightarrow> hyphenate ?p ! i = CHR ''-''"
    by (simp add: hyphenate_nth)
  ultimately show "\<exists>tag hostf progf.
      fst (formatMessage w s) =
        ''<'' @ tag @ ''>'' @ time_Now_Format w @ '' '' @ hostf @ '' '' @ progf @ '': '' @
        Message (config s) \<and>
      length hostf = length ?h \<and> length progf = length ?p \<and>
      (\<forall>i. 0 < i \<and> Suc i < length ?h \<and> ?h ! i = CHR '' '' \<longrightarrow> hostf ! i = CHR ''-'') \<and>
      (\<forall>i. 0 < i \<and> Suc i < length ?p \<and> ?p ! i = CHR '' '' \<longrightarrow> progf ! i = CHR ''-'')"
    using length_hyphenate[of ?h] length_hyphenate[of ?p] by blast
next
  have tag: "Itoa (go_int (go_int 128 + 6)) = ''134''" by code_simp
  have hy: "hyphenate ''test host name'' = ''test-host-name''"
    "hyphenate ''test program'' = ''test-program''"
    by code_simp+
  have "fst (formatMessage w (NewSyslogClient test_spaces_config)) =
        [] @ ''<134>'' @ (time_Now_Format w @ '' '') @ ''test-host-name'' @ '' '' @
        ''test-program:'' @ '' '' @ ''test message'' @ []"
    by (simp add: formatMessage_line rendered_line_def NewSyslogClient_def
        test_spaces_config_def effective_host_def effective_program_def tag hy)
  then show "\<exists>a b c d e.
      fst (formatMessage w (NewSyslogClient test_spaces_config)) =
        a @ ''<134>'' @ b @ ''test-host-name'' @ c @ ''test-program:'' @ d @ ''test message'' @ e"
    by blast
qed

theorem interior_spaces_hyphenated_body_verbatim_witness:
  "\<exists>tag hostf progf.
     fst (formatMessage quiet_world (NewSyslogClient test_spaces_config)) =
       ''<'' @ tag @ ''>'' @ ''Nov  3 13:46:05'' @ '' '' @ hostf @ '' '' @ progf @ '': '' @
       ''test message'' \<and>
     length hostf = 14 \<and> hostf ! 4 = CHR ''-'' \<and> hostf ! 9 = CHR ''-'' \<and>
     length progf = 12 \<and> progf ! 4 = CHR ''-''"
proof -
  let ?w = quiet_world and ?s = "NewSyslogClient test_spaces_config"
  have h: "effective_host ?w (config ?s) = ''test host name''"
    and p: "effective_program (config ?s) = ''test program''"
    and m: "Message (config ?s) = ''test message''"
    and t: "time_Now_Format ?w = ''Nov  3 13:46:05''"
    by (simp_all add: effective_host_def effective_program_def NewSyslogClient_def
        test_spaces_config_def quiet_world_def)
  from interior_spaces_hyphenated_body_verbatim[of ?w ?s, THEN conjunct1]
  obtain tag hostf progf where
    line: "fst (formatMessage ?w ?s) =
        ''<'' @ tag @ ''>'' @ time_Now_Format ?w @ '' '' @ hostf @ '' '' @ progf @ '': '' @
        Message (config ?s)"
    and lh: "length hostf = length (effective_host ?w (config ?s))"
    and lp: "length progf = length (effective_program (config ?s))"
    and hs: "\<forall>i. 0 < i \<and> Suc i < length (effective_host ?w (config ?s)) \<and>
           effective_host ?w (config ?s) ! i = CHR '' '' \<longrightarrow> hostf ! i = CHR ''-''"
    and ps: "\<forall>i. 0 < i \<and> Suc i < length (effective_program (config ?s)) \<and>
           effective_program (config ?s) ! i = CHR '' '' \<longrightarrow> progf ! i = CHR ''-''"
    by blast
  have "hostf ! 4 = CHR ''-''" using hs[rule_format, of 4] by (simp add: h)
  moreover have "hostf ! 9 = CHR ''-''" using hs[rule_format, of 9] by (simp add: h)
  moreover have "progf ! 4 = CHR ''-''" using ps[rule_format, of 4] by (simp add: p)
  moreover have "length hostf = 14" "length progf = 12" using lh lp by (simp_all add: h p)
  ultimately show ?thesis using line unfolding m t by blast
qed

text \<open>
  Claim C7. The host that \<open>formatMessage\<close> renders is the hostname override if
  present, else the system hostname, else \<open>localhost\<close> if the lookup fails; the
  program is the program override if present, else \<open>syslog-sender\<close>; both are
  rendered with their spaces replaced by hyphens.
\<close>

theorem effective_host_and_program:
  "fst (formatMessage w s) =
     rendered_line (Itoa (go_int (go_int (Facility (config s) * 8) + Severity (config s))))
       (time_Now_Format w) (hyphenate (effective_host w (config s)))
       (hyphenate (effective_program (config s))) (Message (config s)) \<and>
   (Hostname (config s) \<noteq> [] \<longrightarrow> effective_host w (config s) = Hostname (config s)) \<and>
   (Hostname (config s) = [] \<longrightarrow> os_Hostname w = Inr h \<longrightarrow> effective_host w (config s) = h) \<and>
   (Hostname (config s) = [] \<longrightarrow> os_Hostname w = Inl e \<longrightarrow>
      effective_host w (config s) = ''localhost'') \<and>
   (Program (config s) \<noteq> [] \<longrightarrow> effective_program (config s) = Program (config s)) \<and>
   (Program (config s) = [] \<longrightarrow> effective_program (config s) = ''syslog-sender'')"
  by (simp add: formatMessage_line effective_host_def effective_program_def)

theorem effective_host_and_program_witness:
  "fst (formatMessage quiet_world (NewSyslogClient test_empty_message_config)) =
     ''<134>Nov  3 13:46:05 build-host syslog-sender: '' \<and>
   fst (formatMessage (quiet_world\<lparr>os_Hostname := Inl ''no hostname''\<rparr>)
          (NewSyslogClient test_spaces_config)) =
     ''<134>Nov  3 13:46:05 test-host-name test-program: test message'' \<and>
   fst (formatMessage (quiet_world\<lparr>os_Hostname := Inl ''no hostname''\<rparr>)
          (NewSyslogClient test_empty_message_config)) =
     ''<134>Nov  3 13:46:05 localhost syslog-sender: ''"
proof -
  let ?w = "quiet_world\<lparr>os_Hostname := Inl ''no hostname''\<rparr>"
  let ?e = "NewSyslogClient test_empty_message_config"
  let ?t = "NewSyslogClient test_spaces_config"
  have tag: "Itoa (go_int (go_int (16 * 8) + 6)) = ''134''" by code_simp
  have hy: "hyphenate ''build host'' = ''build-host''" "hyphenate ''syslog-sender'' = ''syslog-sender''"
    "hyphenate ''test host name'' = ''test-host-name''" "hyphenate ''test program'' = ''test-program''"
    "hyphenate ''localhost'' = ''localhost''"
    by code_simp+
  have 1: "Hostname (config ?e) = []" "Program (config ?e) = []"
    "os_Hostname quiet_world = Inr ''build host''" "os_Hostname ?w = Inl ''no hostname''"
    "Hostname (config ?t) \<noteq> []" "Program (config ?t) \<noteq> []"
    by (simp_all add: NewSyslogClient_def test_empty_message_config_def test_spaces_config_def
        quiet_world_def)
  show ?thesis
    using effective_host_and_program[of quiet_world ?e "''build host''" "''x''"]
      effective_host_and_program[of ?w ?t "''x''" "''no hostname''"]
      effective_host_and_program[of ?w ?e "''x''" "''no hostname''"] 1 tag hy
    by (simp add: rendered_line_def NewSyslogClient_def test_empty_message_config_def
        test_spaces_config_def quiet_world_def)
qed

text \<open>
  Claim C8. When \<open>validateConfig\<close> succeeds, \<open>Transport\<close> is the
  lower-casing of its former value and every other field of the configuration is as it
  was; when it fails, the whole configuration is as it was.
\<close>

theorem validateConfig_frame:
  "(fst (validateConfig s) = None \<longrightarrow>
      Transport (config (snd (validateConfig s))) = ToLower (Transport (config s)) \<and>
      Address (config (snd (validateConfig s))) = Address (config s) \<and>
      Port (config (snd (validateConfig s))) = Port (config s) \<and>
      Facility (config (snd (validateConfig s))) = Facility (config s) \<and>
      Severity (config (snd (validateConfig s))) = Severity (config s) \<and>
      Message (config (snd (validateConfig s))) = Message (config s) \<and>
      Hostname (config (snd (validateConfig s))) = Hostname (config s) \<and>
      Program (config (snd (validateConfig s))) = Program (config s) \<and>
      snd (validateConfig s) =
        s\<lparr>config := (config s)\<lparr>Transport := ToLower (Transport (config s))\<rparr>\<rparr>) \<and>
   (fst (validateConfig s) \<noteq> None \<longrightarrow> snd (validateConfig s) = s)"
  by (simp add: validateConfig_def Let_def)

theorem validateConfig_frame_witness:
  "snd (validateConfig (NewSyslogClient (test_valid_config\<lparr>Transport := ''UdP''\<rparr>))) =
     NewSyslogClient test_valid_config \<and>
   snd (validateConfig (NewSyslogClient (test_valid_config\<lparr>Transport := ''Bad''\<rparr>))) =
     NewSyslogClient (test_valid_config\<lparr>Transport := ''Bad''\<rparr>)"
proof -
  have ok: "fst (validateConfig (NewSyslogClient (test_valid_config\<lparr>Transport := ''UdP''\<rparr>))) = None"
    by code_simp
  have bad: "fst (validateConfig (NewSyslogClient (test_valid_config\<lparr>Transport := ''Bad''\<rparr>))) \<noteq> None"
    by code_simp
  have low: "ToLower ''UdP'' = ''udp''" by code_simp
  show ?thesis
    using validateConfig_frame[of "NewSyslogClient (test_valid_config\<lparr>Transport := ''UdP''\<rparr>)"]
      validateConfig_frame[of "NewSyslogClient (test_valid_config\<lparr>Transport := ''Bad''\<rparr>)"]
      ok bad low
    by (simp add: NewSyslogClient_def test_valid_config_def)
qed

text \<open>
  Claim C9. \<open>formatMessage\<close> never returns an error; \<open>Send\<close> never
  returns the error of its \<open>failed to format message\<close> branch nor that of the
  default branch of its switch; and after a successful validation the transport is
  \<open>udp\<close> or \<open>tcp\<close>, so that \<open>Send\<close> is \<open>SendUDP\<close> or
  \<open>SendTCP\<close> on the rendered line.
\<close>

theorem Send_dead_branches:
  "snd (formatMessage w s) = None \<and>
   (\<forall>e. fst (fst (Send w s)) \<noteq> Some (Err_format_failed e)) \<and>
   (\<forall>t. fst (fst (Send w s)) \<noteq> Some (Err_unsupported_transport t)) \<and>
   (fst (validateConfig s) = None \<longrightarrow>
      (Transport (config (snd (validateConfig s))) = ''udp'' \<or>
       Transport (config (snd (validateConfig s))) = ''tcp'') \<and>
      fst (Send w s) =
        (let s' = snd (validateConfig s);
             message = fst (formatMessage w s');
             r = (if Transport (config s') = ''udp'' then SendUDP w s' message
                  else SendTCP w s' message)
         in (fst r, debug_output w s' message @ snd r)))"
proof -
  have fm: "\<And>x. snd (formatMessage w x) = None"
    by (simp add: formatMessage_def Let_def)
  have udp: "\<And>x m e. fst (SendUDP w x m) \<noteq> Some (Err_format_failed e)"
            "\<And>x m t. fst (SendUDP w x m) \<noteq> Some (Err_unsupported_transport t)"
    by (simp_all add: SendUDP_def split: option.splits)
  have tcp: "\<And>x m e. fst (SendTCP w x m) \<noteq> Some (Err_format_failed e)"
            "\<And>x m t. fst (SendTCP w x m) \<noteq> Some (Err_unsupported_transport t)"
    by (simp_all add: SendTCP_def Let_def split: option.splits)
  obtain eo s' where v: "validateConfig s = (eo, s')"
    by (cases "validateConfig s") simp
  show ?thesis
  proof (cases eo)
    case (Some e)
    with v validateConfig_error[of s e s'] fm show ?thesis
      by (auto simp: Send_def)
  next
    case None
    with v have ok: "fst (validateConfig s) = None" and s': "snd (validateConfig s) = s'"
      by simp_all
    have tr: "Transport (config s') = ''udp'' \<or> Transport (config s') = ''tcp''"
      using validateConfig_transport[OF ok] s' by simp
    obtain m where m: "formatMessage w s' = (m, None)"
      using fm[of s'] by (cases "formatMessage w s'") simp
    have S: "fst (Send w s) =
        (let r = (if Transport (config s') = ''udp'' then SendUDP w s' m
                  else SendTCP w s' m)
         in (fst r, debug_output w s' m @ snd r))"
      using tr v None by (auto simp: Send_def m Let_def)
    show ?thesis
      using fm ok tr S udp tcp s' by (auto simp: m Let_def)
  qed
qed

theorem Send_dead_branches_witness:
  "fst (Send quiet_world (NewSyslogClient test_valid_config)) =
     (None,
      [Ev_ResolveUDPAddr ''localhost:514'', Ev_DialUDP ''localhost:514'', Ev_SetWriteDeadline 5,
       Ev_Write ''<134>Nov  3 13:46:05 test-host test-program: test message'', Ev_Close])"
proof -
  have ok: "fst (validateConfig (NewSyslogClient test_valid_config)) = None" by code_simp
  have r: "(let s' = snd (validateConfig (NewSyslogClient test_valid_config));
             message = fst (formatMessage quiet_world s');
             r = (if Transport (config s') = ''udp'' then SendUDP quiet_world s' message
                  else SendTCP quiet_world s' message)
         in (fst r, debug_output quiet_world s' message @ snd r)) =
     (None,
      [Ev_ResolveUDPAddr ''localhost:514'', Ev_DialUDP ''localhost:514'', Ev_SetWriteDeadline 5,
       Ev_Write ''<134>Nov  3 13:46:05 test-host test-program: test message'', Ev_Close])"
    by code_simp
  show ?thesis
    using Send_dead_branches[of quiet_world "NewSyslogClient test_valid_config"] ok r
    by simp
qed

text \<open>
  Claim C10. The host and program fields of the rendered line are the effective
  identifiers, also when they come from the system hostname or the built-in default, with
  every space replaced by a hyphen, the first and the last character included, and with
  every other character, a tab for one, kept as it is.
\<close>

theorem every_space_hyphenated_nothing_else:
  "fst (formatMessage w s) =
     rendered_line (Itoa (go_int (go_int (Facility (config s) * 8) + Severity (config s))))
       (time_Now_Format w) (hyphenate (effective_host w (config s)))
       (hyphenate (effective_program (config s))) (Message (config s)) \<and>
   (Hostname (config s) = [] \<longrightarrow> os_Hostname w = Inr n \<longrightarrow> effective_host w (config s) = n) \<and>
   (Program (config s) = [] \<longrightarrow> effective_program (config s) = ''syslog-sender'') \<and>
   length (hyphenate x) = length x \<and>
   CHR '' '' \<notin> set (hyphenate x) \<and>
   (\<forall>i < length x. x ! i = CHR '' '' \<longrightarrow> hyphenate x ! i = CHR ''-'') \<and>
   (\<forall>i < length x. x ! i \<noteq> CHR '' '' \<longrightarrow> hyphenate x ! i = x ! i) \<and>
   (\<forall>i < length x. x ! i = CHR 0x09 \<longrightarrow> hyphenate x ! i = CHR 0x09) \<and>
   (x \<noteq> [] \<longrightarrow> hd x = CHR '' '' \<longrightarrow> hd (hyphenate x) = CHR ''-'') \<and>
   (x \<noteq> [] \<longrightarrow> last x = CHR '' '' \<longrightarrow> last (hyphenate x) = CHR ''-'')"
  by (simp add: formatMessage_line effective_host_def effective_program_def hyphenate_nth
      length_hyphenate hyphenate_no_space hd_hyphenate last_hyphenate)

theorem every_space_hyphenated_nothing_else_witness:
  "fst (formatMessage (quiet_world\<lparr>os_Hostname := Inr ('' my'' @ [CHR 0x09] @ ''host '')\<rparr>)
          (NewSyslogClient test_empty_message_config)) =
     ''<134>Nov  3 13:46:05 '' @ hyphenate ('' my'' @ [CHR 0x09] @ ''host '') @
     '' syslog-sender: '' \<and>
   hd (hyphenate ('' my'' @ [CHR 0x09] @ ''host '')) = CHR ''-'' \<and>
   last (hyphenate ('' my'' @ [CHR 0x09] @ ''host '')) = CHR ''-'' \<and>
   hyphenate ('' my'' @ [CHR 0x09] @ ''host '') ! 3 = CHR 0x09 \<and>
   hyphenate ('' my'' @ [CHR 0x09] @ ''host '') ! 0 = CHR ''-''"
proof -
  let ?n = "'' my'' @ [CHR 0x09] @ ''host ''"
  let ?w = "quiet_world\<lparr>os_Hostname := Inr ?n\<rparr>"
  let ?s = "NewSyslogClient test_empty_message_config"
  have tag: "Itoa (go_int (go_int (16 * 8) + 6)) = ''134''" by code_simp
  have hp: "hyphenate ''syslog-sender'' = ''syslog-sender''" by code_simp
  note T = every_space_hyphenated_nothing_else[of ?w ?s ?n ?n]
  have c: "Hostname (config ?s) = []" "Program (config ?s) = []" "os_Hostname ?w = Inr ?n"
    "Facility (config ?s) = 16" "Severity (config ?s) = 6" "Message (config ?s) = []"
    "time_Now_Format ?w = ''Nov  3 13:46:05''"
    by (simp_all add: NewSyslogClient_def test_empty_message_config_def quiet_world_def)
  have eh: "effective_host ?w (config ?s) = ?n" using T c by blast
  have ep: "effective_program (config ?s) = ''syslog-sender''" using T c by blast
  have line: "fst (formatMessage ?w ?s) =
     ''<134>Nov  3 13:46:05 '' @ hyphenate ?n @ '' syslog-sender: ''"
    using T[THEN conjunct1] unfolding eh ep c tag hp by (simp add: rendered_line_def)
  have i0: "hyphenate ?n ! 0 = CHR ''-''" and i3: "hyphenate ?n ! 3 = CHR 0x09"
    using T by simp_all
  have h: "hd (hyphenate ?n) = CHR ''-''" and l: "last (hyphenate ?n) = CHR ''-''"
    using T by simp_all
  show ?thesis using line i0 i3 h l by simp
qed

end
